theory Spec2Isabelle
  imports Main
begin

section \<open>The cross-thread event bridge of android\_view\_ThreadedRenderer.cpp\<close>

text \<open>
  The embedding covers the classes \<^verbatim>\<open>OnFinishedEvent\<close>, \<^verbatim>\<open>InvokeAnimationListeners\<close>,
  \<^verbatim>\<open>RenderingException\<close>, \<^verbatim>\<open>RootRenderNode\<close> and \<^verbatim>\<open>AnimationContextBridge\<close> of
  \<^verbatim>\<open>core/jni/android_view_ThreadedRenderer.cpp\<close>. Objects are records, methods take the
  object and return it updated, and a call that leaves the file (to the base class
  \<^verbatim>\<open>AnimationContext\<close>, to a listener, to JNI) is recorded in a trace, in the order in
  which the code makes it.
\<close>

subsection \<open>Object identities\<close>

text \<open>
  The code handles render nodes, animators and listeners through reference-counted
  pointers (\<^verbatim>\<open>sp<T>\<close>) and never looks inside them: a pointer is modelled by the identity
  of the live object it refers to.
\<close>

type_synonym RenderNode = nat
type_synonym BaseRenderNodeAnimator = nat
type_synonym AnimationListener = nat
type_synonym JavaVM = nat

text \<open>A \<^verbatim>\<open>JNIEnv\<close> belongs to one thread of one virtual machine.\<close>

record JNIEnv =
  env_thread :: nat
  GetJavaVM :: JavaVM

text \<open>
  What \<^verbatim>\<open>vm->GetEnv\<close> answers on the executing thread: the thread's environment when
  the call returns \<^verbatim>\<open>JNI_OK\<close>, \<open>None\<close> otherwise.
\<close>

type_synonym GetEnv = "JavaVM \<Rightarrow> JNIEnv option"

subsection \<open>Calls that leave the file, and fatal termination\<close>

datatype Call =
    AddAnimatingRenderNode RenderNode
  | AnimationContext_StartFrame
  | AnimationContext_RunRemainingAnimations
  | OnAnimationFinished AnimationListener BaseRenderNodeAnimator
  | JniThrowException JNIEnv string string

text \<open>
  Modelled from the spec: the macros \<^verbatim>\<open>LOG_ALWAYS_FATAL\<close> and \<^verbatim>\<open>LOG_ALWAYS_FATAL_IF\<close> of
  the logging header, which is not among the sources. Section 7 of the spec: a
  precondition violation is fatal and process-terminating, not recoverable. The value
  carries the format text of the log line.
\<close>

datatype fatal = Fatal string

definition LOG_ALWAYS_FATAL_IF :: "bool \<Rightarrow> string \<Rightarrow> fatal + unit" where
  "LOG_ALWAYS_FATAL_IF cond msg = (if cond then Inl (Fatal msg) else Inr ())"

text \<open>
  \<^verbatim>\<open>
  static JNIEnv* getenv(JavaVM* vm) {
      JNIEnv* env;
      if (vm->GetEnv(reinterpret_cast<void**>(&env), JNI_VERSION_1_6) != JNI_OK) {
          LOG_ALWAYS_FATAL("Failed to get JNIEnv for JavaVM: %p", vm);
      }
      return env;
  }
  \<close>
\<close>

definition getenv :: "GetEnv \<Rightarrow> JavaVM \<Rightarrow> fatal + JNIEnv" where
  "getenv thread vm =
     (case thread vm of
        None \<Rightarrow> Inl (Fatal ''Failed to get JNIEnv for JavaVM: %p'')
      | Some env \<Rightarrow> Inr env)"

subsection \<open>OnFinishedEvent and the two message handlers\<close>

record OnFinishedEvent =
  animator :: BaseRenderNodeAnimator
  listener :: AnimationListener

text \<open>
  A \<^verbatim>\<open>MessageHandler\<close> object with its private fields: \<^verbatim>\<open>mOnFinishedEvents\<close> for
  \<^verbatim>\<open>InvokeAnimationListeners\<close>, \<^verbatim>\<open>mVm\<close> and \<^verbatim>\<open>mMessage\<close> for \<^verbatim>\<open>RenderingException\<close>.
\<close>

datatype MessageHandler =
    InvokeAnimationListeners "OnFinishedEvent list"
  | RenderingException JavaVM string

text \<open>\<^verbatim>\<open>std::vector::swap\<close>: the two vectors exchange their contents.\<close>

definition vector_swap :: "'a list \<times> 'a list \<Rightarrow> 'a list \<times> 'a list" where
  "vector_swap p = (snd p, fst p)"

text \<open>
  \<^verbatim>\<open>
  InvokeAnimationListeners(std::vector<OnFinishedEvent>& events) {
      mOnFinishedEvents.swap(events);
  }
  \<close>
  The argument is a reference: the constructor returns the new handler and the
  caller's vector as the swap leaves it.
\<close>

definition new_InvokeAnimationListeners ::
  "OnFinishedEvent list \<Rightarrow> MessageHandler \<times> OnFinishedEvent list" where
  "new_InvokeAnimationListeners events =
     (let swapped = vector_swap ([], events)
      in (InvokeAnimationListeners (fst swapped), snd swapped))"

text \<open>
  \<^verbatim>\<open>
  static void callOnFinished(OnFinishedEvent& event) {
      event.listener->onAnimationFinished(event.animator.get());
  }
  \<close>
\<close>

definition InvokeAnimationListeners_callOnFinished :: "OnFinishedEvent \<Rightarrow> Call" where
  "InvokeAnimationListeners_callOnFinished event =
     OnAnimationFinished (listener event) (animator event)"

text \<open>\<^verbatim>\<open>std::for_each\<close> over a vector, front to back; the calls made are collected in order.\<close>

primrec for_each :: "'a list \<Rightarrow> ('a \<Rightarrow> Call) \<Rightarrow> Call list" where
  "for_each [] f = []"
| "for_each (x # xs) f = f x # for_each xs f"

text \<open>
  \<^verbatim>\<open>std::string::c_str\<close> handed to a parameter of type \<^verbatim>\<open>const char*\<close>: the callee reads
  the characters before the first NUL.
\<close>

definition c_str :: "string \<Rightarrow> string" where
  "c_str s = takeWhile (\<lambda>c. c \<noteq> CHR 0x00) s"

text \<open>
  \<^verbatim>\<open>
  static void throwException(JavaVM* vm, const std::string& message) {
      JNIEnv* env = getenv(vm);
      jniThrowException(env, "java/lang/IllegalStateException", message.c_str());
  }
  \<close>
\<close>

definition throwException :: "GetEnv \<Rightarrow> JavaVM \<Rightarrow> string \<Rightarrow> fatal + Call list" where
  "throwException thread vm message =
     (case getenv thread vm of
        Inl f \<Rightarrow> Inl f
      | Inr env \<Rightarrow>
          Inr [JniThrowException env ''java/lang/IllegalStateException'' (c_str message)])"

text \<open>
  \<^verbatim>\<open>
  // InvokeAnimationListeners
  virtual void handleMessage(const Message& message) {
      std::for_each(mOnFinishedEvents.begin(), mOnFinishedEvents.end(), callOnFinished);
      mOnFinishedEvents.clear();
  }
  // RenderingException
  virtual void handleMessage(const Message&) {
      throwException(mVm, mMessage);
  }
  \<close>
  The result is the calls made on the executing thread and the handler object as the
  execution leaves it, or the fatal termination.
\<close>

fun handleMessage :: "GetEnv \<Rightarrow> MessageHandler \<Rightarrow> fatal + (Call list \<times> MessageHandler)" where
  "handleMessage thread (InvokeAnimationListeners mOnFinishedEvents) =
     Inr (for_each mOnFinishedEvents InvokeAnimationListeners_callOnFinished,
          InvokeAnimationListeners [])"
| "handleMessage thread (RenderingException mVm mMessage) =
     (case throwException thread mVm mMessage of
        Inl f \<Rightarrow> Inl f
      | Inr calls \<Rightarrow> Inr (calls, RenderingException mVm mMessage))"

subsection \<open>The owner thread's event loop\<close>

text \<open>
  Modelled from the spec: \<^verbatim>\<open>Looper\<close> (\<^verbatim>\<open>utils/Looper.h\<close>), which is not among the sources.
  Section 4.1 of the spec: a post hands the unit of work to the owner thread's event
  loop for later execution and returns immediately; delivery order across the posts of
  one anchor is FIFO. The loop is its queue of pending handlers, oldest first; every
  post of the file has the message \<^verbatim>\<open>0\<close>.
\<close>

record Looper =
  mMessageEnvelopes :: "MessageHandler list"

definition Looper_sendMessage :: "MessageHandler \<Rightarrow> Looper \<Rightarrow> Looper" where
  "Looper_sendMessage handler looper =
     looper\<lparr>mMessageEnvelopes := mMessageEnvelopes looper @ [handler]\<rparr>"

subsection \<open>RootRenderNode\<close>

record RootRenderNode =
  mLooper :: Looper
  mVm :: JavaVM
  mPendingAnimatingRenderNodes :: "RenderNode list"

text \<open>
  \<^verbatim>\<open>
  RootRenderNode(JNIEnv* env) : RenderNode() {
      mLooper = Looper::getForThread();
      LOG_ALWAYS_FATAL_IF(!mLooper.get(),
              "Must create RootRenderNode on a thread with a looper!");
      env->GetJavaVM(&mVm);
  }
  \<close>
  The first argument is what \<^verbatim>\<open>Looper::getForThread()\<close> returns on the constructing
  thread: \<open>None\<close> is the null pointer.
\<close>

definition new_RootRenderNode :: "Looper option \<Rightarrow> JNIEnv \<Rightarrow> fatal + RootRenderNode" where
  "new_RootRenderNode getForThread env =
     (case LOG_ALWAYS_FATAL_IF (getForThread = None)
             ''Must create RootRenderNode on a thread with a looper!'' of
        Inl f \<Rightarrow> Inl f
      | Inr _ \<Rightarrow>
          Inr \<lparr>mLooper = the getForThread,
               mVm = GetJavaVM env,
               mPendingAnimatingRenderNodes = []\<rparr>)"

text \<open>
  \<^verbatim>\<open>
  virtual void onError(const std::string& message) {
      mLooper->sendMessage(new RenderingException(mVm, message), 0);
  }
  void sendMessage(const sp<MessageHandler>& handler) {
      mLooper->sendMessage(handler, 0);
  }
  void attachAnimatingNode(RenderNode* animatingNode) {
      mPendingAnimatingRenderNodes.push_back(animatingNode);
  }
  \<close>
\<close>

definition onError :: "string \<Rightarrow> RootRenderNode \<Rightarrow> RootRenderNode" where
  "onError message root =
     root\<lparr>mLooper := Looper_sendMessage (RenderingException (mVm root) message) (mLooper root)\<rparr>"

definition sendMessage :: "MessageHandler \<Rightarrow> RootRenderNode \<Rightarrow> RootRenderNode" where
  "sendMessage handler root = root\<lparr>mLooper := Looper_sendMessage handler (mLooper root)\<rparr>"

definition attachAnimatingNode :: "RenderNode \<Rightarrow> RootRenderNode \<Rightarrow> RootRenderNode" where
  "attachAnimatingNode animatingNode root =
     root\<lparr>mPendingAnimatingRenderNodes := mPendingAnimatingRenderNodes root @ [animatingNode]\<rparr>"


subsection \<open>AnimationContext, the base class\<close>

type_synonym TimeLord = nat

text \<open>
  Modelled from the spec: the base class \<^verbatim>\<open>AnimationContext\<close> (\<^verbatim>\<open>AnimationContext.h\<close>),
  which is not among the sources. The glossary of the spec: the active set is the
  animating nodes currently attached to the per-frame animation context. Section 4.2:
  a drain moves every buffered node into the active set, in insertion order.
  Section 4.3: \<^verbatim>\<open>startFrame\<close> delegates to the generic per-frame time and animation
  setup; \<^verbatim>\<open>runRemainingAnimations\<close> delegates to the generic advancement, and each
  animation that signals completion during that call appends an event through
  \<^verbatim>\<open>callOnFinished\<close>. Section 8: \<open>N\<close> registrations give exactly \<open>N\<close> nodes in the active
  set, so an attachment adds its node whether or not the node is attached already
  (section 9 leaves open what a second attachment of a node does later on). The object
  keeps the active set, and the trace of the calls that the code of the file makes on
  the rendering thread to the base class and to listeners.
\<close>

record AnimationContext =
  mClock :: TimeLord
  active_set :: "RenderNode list"
  trace :: "Call list"

definition addAnimatingRenderNode ::
  "RenderNode \<Rightarrow> 'a AnimationContext_scheme \<Rightarrow> 'a AnimationContext_scheme" where
  "addAnimatingRenderNode node ctx =
     ctx\<lparr>active_set := active_set ctx @ [node],
             trace := trace ctx @ [AddAnimatingRenderNode node]\<rparr>"

definition AnimationContext_startFrame ::
  "'a AnimationContext_scheme \<Rightarrow> 'a AnimationContext_scheme" where
  "AnimationContext_startFrame ctx =
     ctx\<lparr>trace := trace ctx @ [AnimationContext_StartFrame]\<rparr>"

subsection \<open>RootRenderNode::doAttachAnimatingNodes\<close>

text \<open>
  \<^verbatim>\<open>
  void doAttachAnimatingNodes(AnimationContext* ctx) {
      for (size_t i = 0; i < mPendingAnimatingRenderNodes.size(); i++) {
          RenderNode* node = mPendingAnimatingRenderNodes[i].get();
          ctx->addAnimatingRenderNode(*node);
      }
      mPendingAnimatingRenderNodes.clear();
  }
  \<close>
  The loop, from index \<open>i\<close> on.
\<close>

function doAttachAnimatingNodes_loop ::
  "nat \<Rightarrow> RenderNode list \<Rightarrow> 'a AnimationContext_scheme \<Rightarrow> 'a AnimationContext_scheme" where
  "doAttachAnimatingNodes_loop i pending ctx =
     (if i < length pending
      then doAttachAnimatingNodes_loop (i + 1) pending
             (addAnimatingRenderNode (pending ! i) ctx)
      else ctx)"
  by pat_completeness auto
termination
  by (relation "measure (\<lambda>(i, pending, ctx). length pending - i)") auto

declare doAttachAnimatingNodes_loop.simps [simp del]

definition doAttachAnimatingNodes ::
  "RootRenderNode \<times> 'a AnimationContext_scheme \<Rightarrow> RootRenderNode \<times> 'a AnimationContext_scheme" where
  "doAttachAnimatingNodes s =
     (let root = fst s;
          ctx = doAttachAnimatingNodes_loop 0 (mPendingAnimatingRenderNodes root) (snd s)
      in (root\<lparr>mPendingAnimatingRenderNodes := []\<rparr>, ctx))"

subsection \<open>AnimationContextBridge\<close>

text \<open>
  The bridge extends \<^verbatim>\<open>AnimationContext\<close> by \<^verbatim>\<open>mOnFinishedEvents\<close>. Its field
  \<^verbatim>\<open>mRootNode\<close> points to the \<^verbatim>\<open>RootRenderNode\<close> that the owner thread registers nodes
  with: the methods that follow the pointer take and return the pair of the two
  objects, the root first.
\<close>

record AnimationContextBridge = AnimationContext +
  mOnFinishedEvents :: "OnFinishedEvent list"

definition new_AnimationContextBridge :: "TimeLord \<Rightarrow> AnimationContextBridge" where
  "new_AnimationContextBridge clock =
     \<lparr>mClock = clock, active_set = [], trace = [], mOnFinishedEvents = []\<rparr>"

text \<open>
  \<^verbatim>\<open>
  virtual void callOnFinished(BaseRenderNodeAnimator* animator, AnimationListener* listener) {
      OnFinishedEvent event(animator, listener);
      mOnFinishedEvents.push_back(event);
  }
  \<close>
\<close>

definition callOnFinished ::
  "BaseRenderNodeAnimator \<Rightarrow> AnimationListener \<Rightarrow> AnimationContextBridge \<Rightarrow> AnimationContextBridge" where
  "callOnFinished anim lsnr bridge =
     (let event = \<lparr>animator = anim, listener = lsnr\<rparr>
      in bridge\<lparr>mOnFinishedEvents := mOnFinishedEvents bridge @ [event]\<rparr>)"

text \<open>
  Modelled from the spec: \<^verbatim>\<open>AnimationContext::runRemainingAnimations\<close>, which is not
  among the sources. The animations that signal completion during the call are the
  parameter \<open>finished\<close>, animator and listener of each, in completion order; the base
  class reports each through the virtual \<^verbatim>\<open>callOnFinished\<close>.
\<close>

definition AnimationContext_runRemainingAnimations ::
  "(BaseRenderNodeAnimator \<times> AnimationListener) list \<Rightarrow> AnimationContextBridge \<Rightarrow> AnimationContextBridge" where
  "AnimationContext_runRemainingAnimations finished bridge =
     fold (\<lambda>c. callOnFinished (fst c) (snd c)) finished
       (bridge\<lparr>trace := trace bridge @ [AnimationContext_RunRemainingAnimations]\<rparr>)"

text \<open>
  \<^verbatim>\<open>
  virtual void startFrame() {
      mRootNode->doAttachAnimatingNodes(this);
      AnimationContext::startFrame();
  }
  \<close>
\<close>

definition startFrame ::
  "RootRenderNode \<times> AnimationContextBridge \<Rightarrow> RootRenderNode \<times> AnimationContextBridge" where
  "startFrame s =
     (let attached = doAttachAnimatingNodes s
      in (fst attached, AnimationContext_startFrame (snd attached)))"

text \<open>
  \<^verbatim>\<open>
  virtual void runRemainingAnimations(TreeInfo& info) {
      AnimationContext::runRemainingAnimations(info);
      // post all the finished stuff
      if (mOnFinishedEvents.size()) {
          sp<InvokeAnimationListeners> message
                  = new InvokeAnimationListeners(mOnFinishedEvents);
          mRootNode->sendMessage(message);
      }
  }
  \<close>
\<close>

definition runRemainingAnimations ::
  "(BaseRenderNodeAnimator \<times> AnimationListener) list \<Rightarrow>
   RootRenderNode \<times> AnimationContextBridge \<Rightarrow> RootRenderNode \<times> AnimationContextBridge" where
  "runRemainingAnimations finished s =
     (let root = fst s;
          bridge = AnimationContext_runRemainingAnimations finished (snd s)
      in if length (mOnFinishedEvents bridge) \<noteq> 0
         then (let created = new_InvokeAnimationListeners (mOnFinishedEvents bridge);
                   message = fst created
               in (sendMessage message root, bridge\<lparr>mOnFinishedEvents := snd created\<rparr>))
         else (root, bridge))"

section \<open>Properties\<close>

subsection \<open>Helper lemmas\<close>

lemma for_each_map: "for_each xs f = map f xs"
  by (induction xs) simp_all

lemma doAttachAnimatingNodes_loop_eq:
  "doAttachAnimatingNodes_loop i pending ctx =
     ctx\<lparr>active_set := active_set ctx @ drop i pending,
             trace := trace ctx @ map AddAnimatingRenderNode (drop i pending)\<rparr>"
proof (induction i pending ctx rule: doAttachAnimatingNodes_loop.induct)
  case (1 i pending ctx)
  show ?case
  proof (cases "i < length pending")
    case True
    then have d: "drop i pending = pending ! i # drop (Suc i) pending"
      by (simp add: Cons_nth_drop_Suc)
    from True 1 show ?thesis
      by (subst doAttachAnimatingNodes_loop.simps) (simp add: d addAnimatingRenderNode_def)
  next
    case False
    then show ?thesis
      by (subst doAttachAnimatingNodes_loop.simps) simp
  qed
qed

lemma fold_attachAnimatingNode:
  "fold attachAnimatingNode ns root =
     root\<lparr>mPendingAnimatingRenderNodes := mPendingAnimatingRenderNodes root @ ns\<rparr>"
  by (induction ns arbitrary: root) (simp_all add: attachAnimatingNode_def)

lemma fold_callOnFinished:
  "fold (\<lambda>c. callOnFinished (fst c) (snd c)) finished bridge =
     bridge\<lparr>mOnFinishedEvents := mOnFinishedEvents bridge
               @ map (\<lambda>c. \<lparr>animator = fst c, listener = snd c\<rparr>) finished\<rparr>"
  by (induction finished arbitrary: bridge) (simp_all add: callOnFinished_def)


lemma funpow_attachAnimatingNode:
  "(attachAnimatingNode n ^^ M) root =
     root\<lparr>mPendingAnimatingRenderNodes := mPendingAnimatingRenderNodes root @ replicate M n\<rparr>"
  by (induction M) (simp_all add: attachAnimatingNode_def replicate_append_same)

lemma count_list_replicate_same: "count_list (replicate M x) x = M"
  by (induction M) simp_all

lemma count_list_map_inj:
  "inj f \<Longrightarrow> count_list (map f xs) (f x) = count_list xs x"
  by (induction xs) (auto dest: injD)

lemma doAttachAnimatingNodes_eq:
  "doAttachAnimatingNodes (root, ctx) =
     (root\<lparr>mPendingAnimatingRenderNodes := []\<rparr>,
      ctx\<lparr>active_set := active_set ctx @ mPendingAnimatingRenderNodes root,
          trace := trace ctx @ map AddAnimatingRenderNode (mPendingAnimatingRenderNodes root)\<rparr>)"
  by (simp add: doAttachAnimatingNodes_def doAttachAnimatingNodes_loop_eq)

lemma c_str_no_nul: "CHR 0x00 \<notin> set s \<Longrightarrow> c_str s = s"
  by (auto simp: c_str_def)

subsection \<open>Claims\<close>

text \<open>
  C9. Constructing the owner-tree anchor on a thread without an event loop terminates the
  process (the result is the fatal value, never an anchor), and on a thread with an
  event loop the construction yields the anchor, holding that loop, the virtual
  machine of the environment and an empty pending registry.
\<close>

theorem new_RootRenderNode_looper:
  "new_RootRenderNode None env
     = Inl (Fatal ''Must create RootRenderNode on a thread with a looper!'')
   \<and> new_RootRenderNode (Some looper) env
     = Inr \<lparr>mLooper = looper, mVm = GetJavaVM env, mPendingAnimatingRenderNodes = []\<rparr>"
  by (simp add: new_RootRenderNode_def LOG_ALWAYS_FATAL_IF_def)

text \<open>
  C10. Executing a finished-events unit of work invokes the listeners of its events and
  leaves the unit with an empty event list; executing the unit again invokes no
  listener and leaves it as it is, so every later execution is a no-op.
\<close>

theorem handleMessage_twice:
  "handleMessage thread (InvokeAnimationListeners events)
     = Inr (map (\<lambda>e. OnAnimationFinished (listener e) (animator e)) events,
            InvokeAnimationListeners [])
   \<and> handleMessage thread (InvokeAnimationListeners [])
     = Inr ([], InvokeAnimationListeners [])"
  by (simp add: for_each_map InvokeAnimationListeners_callOnFinished_def)


text \<open>
  C1. After any sequence \<open>ns\<close> of registrations made on an anchor whose registry is empty,
  \<^verbatim>\<open>startFrame\<close> leaves the registry empty and the active set extended by exactly the
  nodes of \<open>ns\<close>, in insertion order (so a fresh animation context holds exactly
  \<open>length ns\<close> nodes, namely \<open>ns\<close>); on the rendering thread the attachments of the drain
  all come before the delegation to the generic per-frame setup.
\<close>

theorem startFrame_attaches_registered_nodes:
  assumes "mPendingAnimatingRenderNodes root = []"
  shows "mPendingAnimatingRenderNodes
           (fst (startFrame (fold attachAnimatingNode ns root, bridge))) = []
       \<and> active_set (snd (startFrame (fold attachAnimatingNode ns root, bridge)))
           = active_set bridge @ ns
       \<and> active_set (snd (startFrame (fold attachAnimatingNode ns root,
                                       new_AnimationContextBridge clock))) = ns
       \<and> length (active_set (snd (startFrame (fold attachAnimatingNode ns root,
                                               new_AnimationContextBridge clock))))
           = length ns
       \<and> trace (snd (startFrame (fold attachAnimatingNode ns root, bridge)))
           = trace bridge @ map AddAnimatingRenderNode ns @ [AnimationContext_StartFrame]"
  using assms
  by (simp add: startFrame_def fold_attachAnimatingNode doAttachAnimatingNodes_eq
        AnimationContext_startFrame_def new_AnimationContextBridge_def)

theorem startFrame_attaches_registered_nodes_witness:
  "mPendingAnimatingRenderNodes
     \<lparr>mLooper = \<lparr>mMessageEnvelopes = []\<rparr>, mVm = 1, mPendingAnimatingRenderNodes = []\<rparr> = []
   \<and> active_set (snd (startFrame (fold attachAnimatingNode [7, 3, 7]
        \<lparr>mLooper = \<lparr>mMessageEnvelopes = []\<rparr>, mVm = 1, mPendingAnimatingRenderNodes = []\<rparr>,
        new_AnimationContextBridge 0))) = [7, 3, 7]
   \<and> trace (snd (startFrame (fold attachAnimatingNode [7, 3, 7]
        \<lparr>mLooper = \<lparr>mMessageEnvelopes = []\<rparr>, mVm = 1, mPendingAnimatingRenderNodes = []\<rparr>,
        new_AnimationContextBridge 0)))
       = [AddAnimatingRenderNode 7, AddAnimatingRenderNode 3, AddAnimatingRenderNode 7,
          AnimationContext_StartFrame]"
  using startFrame_attaches_registered_nodes
    [of "\<lparr>mLooper = \<lparr>mMessageEnvelopes = []\<rparr>, mVm = 1, mPendingAnimatingRenderNodes = []\<rparr>"
        "[7, 3, 7]" "new_AnimationContextBridge 0" 0]
  by (simp add: new_AnimationContextBridge_def)

text \<open>
  C2. When the batch that the frame has accumulated by the end of the generic
  advancement holds \<open>K \<ge> 1\<close> events, \<^verbatim>\<open>runRemainingAnimations\<close> appends exactly one
  unit of work to the owner thread's queue, a finished-events unit holding these \<open>K\<close>
  events in completion order; executing the unit invokes the listener of each event
  once, in that order, with the animator of the same event.
\<close>

theorem runRemainingAnimations_posts_one_batch:
  assumes "batch = mOnFinishedEvents bridge
                     @ map (\<lambda>c. \<lparr>animator = fst c, listener = snd c\<rparr>) finished"
    and "length batch = K" and "1 \<le> K"
  shows "mMessageEnvelopes (mLooper (fst (runRemainingAnimations finished (root, bridge))))
           = mMessageEnvelopes (mLooper root) @ [InvokeAnimationListeners batch]
       \<and> handleMessage thread (InvokeAnimationListeners batch)
           = Inr (map (\<lambda>e. OnAnimationFinished (listener e) (animator e)) batch,
                  InvokeAnimationListeners [])
       \<and> length (map (\<lambda>e. OnAnimationFinished (listener e) (animator e)) batch) = K"
proof -
  have b: "mOnFinishedEvents (AnimationContext_runRemainingAnimations finished bridge) = batch"
    by (simp add: AnimationContext_runRemainingAnimations_def fold_callOnFinished assms(1))
  from assms(2,3) have ne: "length batch \<noteq> 0" by simp
  have post: "mMessageEnvelopes (mLooper (fst (runRemainingAnimations finished (root, bridge))))
           = mMessageEnvelopes (mLooper root) @ [InvokeAnimationListeners batch]"
    using b ne
    by (simp add: runRemainingAnimations_def Let_def new_InvokeAnimationListeners_def
          vector_swap_def sendMessage_def Looper_sendMessage_def)
  have exec: "handleMessage thread (InvokeAnimationListeners batch)
           = Inr (map (\<lambda>e. OnAnimationFinished (listener e) (animator e)) batch,
                  InvokeAnimationListeners [])"
    by (simp add: for_each_map InvokeAnimationListeners_callOnFinished_def)
  from post exec assms(2) show ?thesis by simp
qed

theorem runRemainingAnimations_posts_one_batch_witness:
  "mMessageEnvelopes (mLooper (fst (runRemainingAnimations [(10, 20), (11, 21)]
       (\<lparr>mLooper = \<lparr>mMessageEnvelopes = [RenderingException 1 ''e'']\<rparr>, mVm = 1,
         mPendingAnimatingRenderNodes = []\<rparr>,
        new_AnimationContextBridge 0))))
     = [RenderingException 1 ''e'',
        InvokeAnimationListeners
          [\<lparr>animator = 10, listener = 20\<rparr>, \<lparr>animator = 11, listener = 21\<rparr>]]
   \<and> handleMessage (\<lambda>vm. None)
        (InvokeAnimationListeners
          [\<lparr>animator = 10, listener = 20\<rparr>, \<lparr>animator = 11, listener = 21\<rparr>])
     = Inr ([OnAnimationFinished 20 10, OnAnimationFinished 21 11],
            InvokeAnimationListeners [])"
  using runRemainingAnimations_posts_one_batch
    [of "[\<lparr>animator = 10, listener = 20\<rparr>, \<lparr>animator = 11, listener = 21\<rparr>]"
        "new_AnimationContextBridge 0" "[(10, 20), (11, 21)]" 2
        "\<lparr>mLooper = \<lparr>mMessageEnvelopes = [RenderingException 1 ''e'']\<rparr>, mVm = 1,
          mPendingAnimatingRenderNodes = []\<rparr>" "\<lambda>vm. None"]
  by (simp add: new_AnimationContextBridge_def)

text \<open>
  C3. When the batch is empty at the moment the generic advancement returns,
  \<^verbatim>\<open>runRemainingAnimations\<close> posts nothing: the anchor, and with it the owner thread's
  queue, is as before.
\<close>

theorem runRemainingAnimations_empty_batch_posts_nothing:
  assumes "mOnFinishedEvents (AnimationContext_runRemainingAnimations finished bridge) = []"
  shows "fst (runRemainingAnimations finished (root, bridge)) = root
       \<and> mMessageEnvelopes (mLooper (fst (runRemainingAnimations finished (root, bridge))))
           = mMessageEnvelopes (mLooper root)"
  using assms by (simp add: runRemainingAnimations_def Let_def)

theorem runRemainingAnimations_empty_batch_posts_nothing_witness:
  "mOnFinishedEvents (AnimationContext_runRemainingAnimations [] (new_AnimationContextBridge 0)) = []
   \<and> mMessageEnvelopes (mLooper (fst (runRemainingAnimations []
        (\<lparr>mLooper = \<lparr>mMessageEnvelopes = [RenderingException 1 ''e'']\<rparr>, mVm = 1,
          mPendingAnimatingRenderNodes = []\<rparr>,
         new_AnimationContextBridge 0))))
     = [RenderingException 1 ''e'']"
proof -
  have h: "mOnFinishedEvents
             (AnimationContext_runRemainingAnimations [] (new_AnimationContextBridge 0)) = []"
    by (simp add: AnimationContext_runRemainingAnimations_def new_AnimationContextBridge_def)
  show ?thesis
    using h runRemainingAnimations_empty_batch_posts_nothing [OF h,
        of "\<lparr>mLooper = \<lparr>mMessageEnvelopes = [RenderingException 1 ''e'']\<rparr>, mVm = 1,
             mPendingAnimatingRenderNodes = []\<rparr>"]
    by simp
qed


text \<open>
  C4, as the claim states it, fails: a message with an embedded NUL character reaches
  \<^verbatim>\<open>jniThrowException\<close> through \<^verbatim>\<open>c_str()\<close> and the error raised carries only the text
  before the NUL. Here the message is \<open>a\<close>, NUL, \<open>b\<close> and the error carries \<open>a\<close>.
\<close>

theorem onError_message_counterexample:
  "handleMessage (\<lambda>vm. Some \<lparr>env_thread = 0, GetJavaVM = vm\<rparr>)
     (last (mMessageEnvelopes (mLooper (onError [CHR ''a'', CHR 0x00, CHR ''b'']
        \<lparr>mLooper = \<lparr>mMessageEnvelopes = []\<rparr>, mVm = 1,
          mPendingAnimatingRenderNodes = []\<rparr>))))
   = Inr ([JniThrowException \<lparr>env_thread = 0, GetJavaVM = 1\<rparr>
             ''java/lang/IllegalStateException'' ''a''],
          RenderingException 1 [CHR ''a'', CHR 0x00, CHR ''b''])
   \<and> ''a'' \<noteq> [CHR ''a'', CHR 0x00, CHR ''b'']"
  by (simp add: onError_def Looper_sendMessage_def throwException_def getenv_def c_str_def)

text \<open>
  C4, amended. Every call to \<^verbatim>\<open>onError(message)\<close> appends exactly one error unit of work,
  holding the message, to the owner thread's queue. Executed on a thread that is
  attached to the virtual machine, the unit raises one
  \<^verbatim>\<open>java/lang/IllegalStateException\<close> that carries the message up to its first NUL
  character, which is the original text unmodified for every message without a NUL
  character.
\<close>

theorem onError_posts_one_error_unit:
  assumes "thread (mVm root) = Some env"
  shows "mMessageEnvelopes (mLooper (onError message root))
           = mMessageEnvelopes (mLooper root) @ [RenderingException (mVm root) message]
       \<and> handleMessage thread (RenderingException (mVm root) message)
           = Inr ([JniThrowException env ''java/lang/IllegalStateException'' (c_str message)],
                  RenderingException (mVm root) message)
       \<and> (CHR 0x00 \<notin> set message \<longrightarrow> c_str message = message)"
  using assms
  by (simp add: onError_def Looper_sendMessage_def throwException_def getenv_def c_str_no_nul)

theorem onError_posts_one_error_unit_witness:
  "(\<lambda>vm. Some \<lparr>env_thread = 0, GetJavaVM = vm\<rparr>)
       (mVm \<lparr>mLooper = \<lparr>mMessageEnvelopes = []\<rparr>, mVm = 1, mPendingAnimatingRenderNodes = []\<rparr>)
     = Some \<lparr>env_thread = 0, GetJavaVM = 1\<rparr>
   \<and> CHR 0x00 \<notin> set ''bad layer''
   \<and> mMessageEnvelopes (mLooper (onError ''bad layer''
        \<lparr>mLooper = \<lparr>mMessageEnvelopes = []\<rparr>, mVm = 1, mPendingAnimatingRenderNodes = []\<rparr>))
     = [RenderingException 1 ''bad layer'']
   \<and> handleMessage (\<lambda>vm. Some \<lparr>env_thread = 0, GetJavaVM = vm\<rparr>)
        (RenderingException 1 ''bad layer'')
     = Inr ([JniThrowException \<lparr>env_thread = 0, GetJavaVM = 1\<rparr>
               ''java/lang/IllegalStateException'' ''bad layer''],
            RenderingException 1 ''bad layer'')"
proof -
  have h: "(\<lambda>vm. Some \<lparr>env_thread = 0, GetJavaVM = vm\<rparr>)
       (mVm \<lparr>mLooper = \<lparr>mMessageEnvelopes = []\<rparr>, mVm = 1, mPendingAnimatingRenderNodes = []\<rparr>)
     = Some \<lparr>env_thread = 0, GetJavaVM = 1\<rparr>"
    by simp
  have n: "CHR 0x00 \<notin> set ''bad layer''" by simp
  show ?thesis
    using h n onError_posts_one_error_unit
      [of "\<lambda>vm. Some \<lparr>env_thread = 0, GetJavaVM = vm\<rparr>"
          "\<lparr>mLooper = \<lparr>mMessageEnvelopes = []\<rparr>, mVm = 1, mPendingAnimatingRenderNodes = []\<rparr>"
          "\<lparr>env_thread = 0, GetJavaVM = 1\<rparr>" "''bad layer''"]
    by simp
qed

text \<open>
  C5. The constructor of the finished-events unit takes the events by swapping: the unit
  holds them and the caller's vector is empty. When the batch is non-empty at the end
  of \<^verbatim>\<open>runRemainingAnimations\<close>, the unit appended to the owner thread's queue holds
  the events of the batch, and the bridge's own batch is empty when the call returns
  (as it is when nothing was posted); so the batch of the next frame holds the events
  of that frame only.
\<close>

theorem runRemainingAnimations_leaves_batch_empty:
  "new_InvokeAnimationListeners events = (InvokeAnimationListeners events, [])
   \<and> (mOnFinishedEvents bridge @ map (\<lambda>c. \<lparr>animator = fst c, listener = snd c\<rparr>) finished \<noteq> []
        \<longrightarrow> mMessageEnvelopes (mLooper (fst (runRemainingAnimations finished (root, bridge))))
              = mMessageEnvelopes (mLooper root)
                @ [InvokeAnimationListeners
                     (mOnFinishedEvents bridge
                      @ map (\<lambda>c. \<lparr>animator = fst c, listener = snd c\<rparr>) finished)])
   \<and> mOnFinishedEvents (snd (runRemainingAnimations finished (root, bridge))) = []
   \<and> mOnFinishedEvents
       (AnimationContext_runRemainingAnimations finished'
          (snd (startFrame (runRemainingAnimations finished (root, bridge)))))
     = map (\<lambda>c. \<lparr>animator = fst c, listener = snd c\<rparr>) finished'"
proof -
  have ctor: "new_InvokeAnimationListeners events = (InvokeAnimationListeners events, [])"
    for events
    by (simp add: new_InvokeAnimationListeners_def vector_swap_def)
  have adv: "mOnFinishedEvents (AnimationContext_runRemainingAnimations fs b)
      = mOnFinishedEvents b @ map (\<lambda>c. \<lparr>animator = fst c, listener = snd c\<rparr>) fs" for fs b
    by (simp add: AnimationContext_runRemainingAnimations_def fold_callOnFinished)
  have posted:
    "mOnFinishedEvents bridge @ map (\<lambda>c. \<lparr>animator = fst c, listener = snd c\<rparr>) finished \<noteq> []
       \<longrightarrow> mMessageEnvelopes (mLooper (fst (runRemainingAnimations finished (root, bridge))))
             = mMessageEnvelopes (mLooper root)
               @ [InvokeAnimationListeners
                    (mOnFinishedEvents bridge
                     @ map (\<lambda>c. \<lparr>animator = fst c, listener = snd c\<rparr>) finished)]"
    by (simp add: runRemainingAnimations_def Let_def ctor adv sendMessage_def
          Looper_sendMessage_def)
  have flushed: "mOnFinishedEvents (snd (runRemainingAnimations finished (root, bridge))) = []"
    by (simp add: runRemainingAnimations_def Let_def ctor)
  have frame: "mOnFinishedEvents (snd (startFrame s)) = mOnFinishedEvents (snd s)" for s
    by (cases s)
      (simp add: startFrame_def doAttachAnimatingNodes_eq AnimationContext_startFrame_def)
  have next_frame: "mOnFinishedEvents
       (AnimationContext_runRemainingAnimations finished'
          (snd (startFrame (runRemainingAnimations finished (root, bridge)))))
     = map (\<lambda>c. \<lparr>animator = fst c, listener = snd c\<rparr>) finished'"
    by (simp only: flushed frame adv append_Nil)
  from ctor posted flushed next_frame show ?thesis
    by blast
qed

theorem runRemainingAnimations_leaves_batch_empty_witness:
  "mOnFinishedEvents (callOnFinished 9 19 (new_AnimationContextBridge 0))
     @ map (\<lambda>c. \<lparr>animator = fst c, listener = snd c\<rparr>) [(10, 20)] \<noteq> []
   \<and> mMessageEnvelopes (mLooper (fst (runRemainingAnimations [(10, 20)]
        (\<lparr>mLooper = \<lparr>mMessageEnvelopes = [RenderingException 1 ''e'']\<rparr>, mVm = 1,
          mPendingAnimatingRenderNodes = []\<rparr>,
         callOnFinished 9 19 (new_AnimationContextBridge 0)))))
     = [RenderingException 1 ''e'',
        InvokeAnimationListeners
          [\<lparr>animator = 9, listener = 19\<rparr>, \<lparr>animator = 10, listener = 20\<rparr>]]
   \<and> mOnFinishedEvents (snd (runRemainingAnimations [(10, 20)]
        (\<lparr>mLooper = \<lparr>mMessageEnvelopes = [RenderingException 1 ''e'']\<rparr>, mVm = 1,
          mPendingAnimatingRenderNodes = []\<rparr>,
         callOnFinished 9 19 (new_AnimationContextBridge 0)))) = []"
proof -
  have h: "mOnFinishedEvents (callOnFinished 9 19 (new_AnimationContextBridge 0))
     @ map (\<lambda>c. \<lparr>animator = fst c, listener = snd c\<rparr>) [(10, 20)] \<noteq> []"
    by simp
  have b: "mOnFinishedEvents (callOnFinished 9 19 (new_AnimationContextBridge 0))
     = [\<lparr>animator = 9, listener = 19\<rparr>]"
    by (simp add: callOnFinished_def new_AnimationContextBridge_def)
  show ?thesis
    using h b runRemainingAnimations_leaves_batch_empty
      [where bridge = "callOnFinished 9 19 (new_AnimationContextBridge 0)"
         and finished = "[(10, 20)]"
         and root = "\<lparr>mLooper = \<lparr>mMessageEnvelopes = [RenderingException 1 ''e'']\<rparr>, mVm = 1,
          mPendingAnimatingRenderNodes = []\<rparr>"]
    by simp
qed

text \<open>
  C6. A drain that follows a drain with no registration in between changes nothing: the
  registry stays empty, and the animation context, its active set included, is the one
  the first drain left. Draining an empty registry returns the context as it was; the
  drain has no failing branch.
\<close>

theorem doAttachAnimatingNodes_twice:
  "doAttachAnimatingNodes (doAttachAnimatingNodes (root, ctx))
     = doAttachAnimatingNodes (root, ctx)
   \<and> active_set (snd (doAttachAnimatingNodes (doAttachAnimatingNodes (root, ctx))))
     = active_set (snd (doAttachAnimatingNodes (root, ctx)))
   \<and> doAttachAnimatingNodes (root\<lparr>mPendingAnimatingRenderNodes := []\<rparr>, ctx)
     = (root\<lparr>mPendingAnimatingRenderNodes := []\<rparr>, ctx)"
  by (simp add: doAttachAnimatingNodes_eq)

text \<open>
  C7. Registering one node \<open>M\<close> times appends \<open>M\<close> entries for it to the pending registry,
  whatever the registry holds already, and the next drain calls
  \<^verbatim>\<open>addAnimatingRenderNode\<close> for that node once per entry: \<open>M\<close> times more than for the
  entries the registry held before.
\<close>

theorem attachAnimatingNode_no_deduplication:
  "mPendingAnimatingRenderNodes ((attachAnimatingNode n ^^ M) root)
     = mPendingAnimatingRenderNodes root @ replicate M n
   \<and> count_list (mPendingAnimatingRenderNodes ((attachAnimatingNode n ^^ M) root)) n
     = count_list (mPendingAnimatingRenderNodes root) n + M
   \<and> trace (snd (doAttachAnimatingNodes ((attachAnimatingNode n ^^ M) root, ctx)))
     = trace ctx @ map AddAnimatingRenderNode (mPendingAnimatingRenderNodes root)
         @ replicate M (AddAnimatingRenderNode n)
   \<and> count_list (trace (snd (doAttachAnimatingNodes ((attachAnimatingNode n ^^ M) root, ctx))))
       (AddAnimatingRenderNode n)
     = count_list (trace ctx) (AddAnimatingRenderNode n)
         + count_list (mPendingAnimatingRenderNodes root) n + M"
proof -
  have inj: "inj AddAnimatingRenderNode" by (simp add: inj_def)
  show ?thesis
    by (simp add: funpow_attachAnimatingNode doAttachAnimatingNodes_eq
          count_list_replicate_same count_list_map_inj [OF inj])
qed

text \<open>
  C8. \<^verbatim>\<open>callOnFinished(animator, listener)\<close> appends exactly one event, the pair of its
  arguments, behind the events accumulated so far, which stay as they are; it makes no
  call at all outside the bridge, so the listener is not invoked, and the active set
  is untouched.
\<close>

theorem callOnFinished_appends_one_event:
  "mOnFinishedEvents (callOnFinished anim lsnr bridge)
     = mOnFinishedEvents bridge @ [\<lparr>animator = anim, listener = lsnr\<rparr>]
   \<and> length (mOnFinishedEvents (callOnFinished anim lsnr bridge))
     = length (mOnFinishedEvents bridge) + 1
   \<and> take (length (mOnFinishedEvents bridge)) (mOnFinishedEvents (callOnFinished anim lsnr bridge))
     = mOnFinishedEvents bridge
   \<and> trace (callOnFinished anim lsnr bridge) = trace bridge
   \<and> active_set (callOnFinished anim lsnr bridge) = active_set bridge"
  by (simp add: callOnFinished_def)

end
